theory Spec2Isabelle
  imports Main "HOL-Library.Word" "HOL-Library.Sublist"
begin

section \<open>JavaScript values\<close>

text \<open>
  A JavaScript string is a sequence of 16-bit code units. The literals of \<^verbatim>\<open>App.tsx\<close> are
  ASCII and are written with \<open>js\<close>.
\<close>

type_synonym jsstring = "16 word list"

definition js :: "string \<Rightarrow> jsstring" where
  "js cs = map (\<lambda>c. of_nat (of_char c)) cs"

text \<open>
  \<^verbatim>\<open>String.prototype.trim\<close> removes the code units of WhiteSpace and LineTerminator
  (ECMAScript 22.1.3.32) from both ends: TAB, LF, VT, FF, CR, SP, NBSP, U+1680,
  U+2000 to U+200A, U+2028, U+2029, U+202F, U+205F, U+3000 and U+FEFF.
\<close>

definition isWhiteSpace :: "16 word \<Rightarrow> bool" where
  "isWhiteSpace u \<longleftrightarrow> u \<in> {0x0009, 0x000A, 0x000B, 0x000C, 0x000D, 0x0020, 0x00A0, 0x1680,
     0x2000, 0x2001, 0x2002, 0x2003, 0x2004, 0x2005, 0x2006, 0x2007, 0x2008, 0x2009, 0x200A,
     0x2028, 0x2029, 0x202F, 0x205F, 0x3000, 0xFEFF}"

definition trim :: "jsstring \<Rightarrow> jsstring" where
  "trim s = rev (dropWhile isWhiteSpace (rev (dropWhile isWhiteSpace s)))"

text \<open>The values that the program passes as named query arguments.\<close>

datatype jsvalue =
    JString jsstring
  | JBool bool
  | JObject "(jsstring \<times> jsvalue) list"

text \<open>
  \<^verbatim>\<open>DQLQueryArguments\<close> is an object from parameter names to values, kept here in insertion
  order. \<open>set_property\<close> is the assignment \<^verbatim>\<open>obj[k] = v\<close>.
\<close>

type_synonym DQLQueryArguments = "(jsstring \<times> jsvalue) list"

fun set_property :: "jsstring \<Rightarrow> jsvalue \<Rightarrow> DQLQueryArguments \<Rightarrow> DQLQueryArguments" where
  "set_property k v [] = [(k, v)]"
| "set_property k v ((k', v') # kvs) =
     (if k' = k then (k, v) # kvs else (k', v') # set_property k v kvs)"

section \<open>The query of the task list\<close>

text \<open>
  Lines 124 to 131 of \<^verbatim>\<open>App.tsx\<close>, inside the observer effect: the query text and its
  arguments, derived from the search term. An empty string is falsy, so
  \<^verbatim>\<open>searchQuery && searchQuery.trim() !== ''\<close> needs both strings to be non-empty.
\<close>

definition buildQuery :: "jsstring \<Rightarrow> jsstring \<times> DQLQueryArguments" where
  "buildQuery searchQuery =
     (let query = js ''SELECT * FROM tasks WHERE deleted=false'';
          queryArgs = [];
          (query, queryArgs) =
            (if searchQuery \<noteq> [] \<and> trim searchQuery \<noteq> []
             then (query @ js '' AND title ILIKE :searchQuery'',
                   set_property (js ''searchQuery'')
                     (JString (js ''%'' @ trim searchQuery @ js ''%'')) queryArgs)
             else (query, queryArgs))
      in (query @ js '' ORDER BY done'', queryArgs))"

section \<open>The data of the program\<close>

text \<open>The type \<^verbatim>\<open>Task\<close> (lines 15 to 20); \<^verbatim>\<open>_id\<close> and \<^verbatim>\<open>done\<close> are renamed.\<close>

record Task =
  task_id :: jsstring
  title :: jsstring
  task_done :: bool
  deleted :: bool

text \<open>
  The values read from \<^verbatim>\<open>import.meta.env\<close> (a variable that is not set is \<open>None\<close>)
  and the constant \<^verbatim>\<open>identity\<close> of lines 7 to 13.
\<close>

record environment =
  DITTO_APP_ID :: "jsstring option"
  DITTO_PLAYGROUND_TOKEN :: "jsstring option"
  DITTO_AUTH_URL :: "jsstring option"
  DITTO_WEBSOCKET_URL :: "jsstring option"

record IdentityOnlinePlayground =
  identity_type :: jsstring
  appID :: "jsstring option"
  token :: "jsstring option"
  customAuthURL :: "jsstring option"
  enableDittoCloudSync :: bool

definition identity :: "environment \<Rightarrow> IdentityOnlinePlayground" where
  "identity env =
     \<lparr> identity_type = js ''onlinePlayground'',
       appID = DITTO_APP_ID env,
       token = DITTO_PLAYGROUND_TOKEN env,
       customAuthURL = DITTO_AUTH_URL env,
       enableDittoCloudSync = False \<rparr>"

text \<open>
  Lines 69 to 72: a fresh \<^verbatim>\<open>TransportConfig\<close> has no websocket URL; the configured one is
  pushed when it is truthy, that is, set and not the empty string. The configuration is
  represented by its list \<^verbatim>\<open>connect.websocketURLs\<close>, the only part the program touches.
\<close>

definition transportConfig :: "environment \<Rightarrow> jsstring list" where
  "transportConfig env =
     (case DITTO_WEBSOCKET_URL env of
        None \<Rightarrow> []
      | Some url \<Rightarrow> if url \<noteq> [] then [] @ [url] else [])"

record QueryResultItem =
  item_value :: Task

record QueryResult =
  items :: "QueryResultItem list"

section \<open>The boundary to the sync engine\<close>

text \<open>
  The Ditto SDK is not part of the repository. The program is modelled up to the calls it
  makes into the SDK. Objects that the SDK creates (the instance, a subscription, an
  observer) are numbered in the order of their creation. Each call either returns or throws;
  which one is an input of the model (\<open>faults\<close>), so that every theorem holds whatever
  the SDK does. Every call is recorded, with its outcome, in \<open>trace\<close>.
\<close>

type_synonym js_error = string

datatype sdk_call =
    NewDitto IdentityOnlinePlayground
  | SetTransportConfig nat "jsstring list"
  | DisableSyncWithV3 nat
  | StartSync nat
  | StopSync nat
  | Close nat
  | RegisterSubscription nat jsstring
  | CancelSubscription nat
  | RegisterObserver nat jsstring DQLQueryArguments
  | CancelObserver nat
  | Execute nat jsstring DQLQueryArguments

datatype outcome = Returned | Created nat | Threw js_error

type_synonym sdk_event = "sdk_call \<times> outcome"

type_synonym faults = "sdk_call \<Rightarrow> js_error option"

text \<open>
  The state of the component \<^verbatim>\<open>App\<close>: its React state (\<open>error\<close>, \<open>syncActive\<close>,
  \<open>dittoInstanceReady\<close>, \<open>tasks\<close>), its three refs (\<open>ditto\<close>, \<open>tasksSubscription\<close>,
  \<open>tasksObserver\<close>, each the \<^verbatim>\<open>.current\<close> of the ref, \<open>None\<close> for \<^verbatim>\<open>null\<close>), the variable
  \<open>localDittoInstance\<close> of the instance effect, the lines written with
  \<^verbatim>\<open>console.error\<close>, and the record of the calls into the SDK. The lines written with
  \<^verbatim>\<open>console.log\<close> are left out.
\<close>

record app =
  error :: "js_error option"
  ditto :: "nat option"
  tasksSubscription :: "nat option"
  tasksObserver :: "nat option"
  syncActive :: bool
  dittoInstanceReady :: bool
  tasks :: "Task list"
  localDittoInstance :: "nat option"
  console_error :: "(string \<times> js_error) list"
  trace :: "sdk_event list"
  next_object :: nat

text \<open>
  A piece of the program is a function from the state to a result and a new state; the
  result is \<open>Inl e\<close> when the piece throws \<open>e\<close>.
\<close>

type_synonym 'a prog = "app \<Rightarrow> (js_error + 'a) \<times> app"

definition ret :: "'a \<Rightarrow> 'a prog" where
  "ret x s = (Inr x, s)"

definition andThen :: "'a prog \<Rightarrow> ('a \<Rightarrow> 'b prog) \<Rightarrow> 'b prog" where
  "andThen m k s = (case m s of (Inl e, s') \<Rightarrow> (Inl e, s') | (Inr x, s') \<Rightarrow> k x s')"

definition thenDo :: "unit prog \<Rightarrow> 'b prog \<Rightarrow> 'b prog" where
  "thenDo m k = andThen m (\<lambda>_. k)"

definition tryCatch :: "'a prog \<Rightarrow> (js_error \<Rightarrow> 'a prog) \<Rightarrow> 'a prog" where
  "tryCatch m handler s = (case m s of (Inl e, s') \<Rightarrow> handler e s' | (Inr x, s') \<Rightarrow> (Inr x, s'))"

definition modify :: "(app \<Rightarrow> app) \<Rightarrow> unit prog" where
  "modify g s = (Inr (), g s)"

text \<open>A call into the SDK that returns nothing, and one that returns a new object.\<close>

definition invoke :: "faults \<Rightarrow> sdk_call \<Rightarrow> unit prog" where
  "invoke f c s =
     (case f c of
        Some e \<Rightarrow> (Inl e, s\<lparr>trace := trace s @ [(c, Threw e)]\<rparr>)
      | None \<Rightarrow> (Inr (), s\<lparr>trace := trace s @ [(c, Returned)]\<rparr>))"

definition construct :: "faults \<Rightarrow> sdk_call \<Rightarrow> nat prog" where
  "construct f c s =
     (case f c of
        Some e \<Rightarrow> (Inl e, s\<lparr>trace := trace s @ [(c, Threw e)]\<rparr>)
      | None \<Rightarrow> (Inr (next_object s),
                 s\<lparr>trace := trace s @ [(c, Created (next_object s))],
                   next_object := Suc (next_object s)\<rparr>))"

definition consoleError :: "string \<Rightarrow> js_error \<Rightarrow> unit prog" where
  "consoleError msg e = modify (\<lambda>s. s\<lparr>console_error := console_error s @ [(msg, e)]\<rparr>)"

definition setError :: "js_error \<Rightarrow> unit prog" where
  "setError e = modify (\<lambda>s. s\<lparr>error := Some e\<rparr>)"

section \<open>The instance effect\<close>

text \<open>
  \<^verbatim>\<open>setupDittoInstance\<close>, lines 61 to 89, from the point where the awaited bootstrap
  promise has settled (\<^verbatim>\<open>initializeDittoSDK\<close> catches its own error, so the promise always
  resolves). The function is run to its end: the \<^verbatim>\<open>await\<close> of line 74 is a call whose
  result is the settlement of the promise.
\<close>

definition setupDittoInstance :: "environment \<Rightarrow> faults \<Rightarrow> unit prog" where
  "setupDittoInstance env f =
     tryCatch
       (andThen (construct f (NewDitto (identity env))) (\<lambda>newDitto.
        thenDo (modify (\<lambda>s. s\<lparr>localDittoInstance := Some newDitto\<rparr>))
       (thenDo (modify (\<lambda>s. s\<lparr>ditto := Some newDitto\<rparr>))
       (thenDo (invoke f (SetTransportConfig newDitto (transportConfig env)))
       (thenDo (invoke f (DisableSyncWithV3 newDitto))
       (thenDo (invoke f (StartSync newDitto))
       (thenDo (modify (\<lambda>s. s\<lparr>syncActive := True\<rparr>))
       (andThen (construct f (RegisterSubscription newDitto (js ''SELECT * FROM tasks''))) (\<lambda>h.
        thenDo (modify (\<lambda>s. s\<lparr>tasksSubscription := Some h\<rparr>))
               (modify (\<lambda>s. s\<lparr>dittoInstanceReady := True\<rparr>)))))))))))
       (\<lambda>e. thenDo (consoleError ''Error during Ditto instance setup:'' e) (setError e))"

text \<open>The cleanup of the instance effect, lines 93 to 108. It has no \<^verbatim>\<open>try\<close>.\<close>

definition instanceCleanup :: "faults \<Rightarrow> unit prog" where
  "instanceCleanup f =
     thenDo (\<lambda>s. case tasksSubscription s of
                   None \<Rightarrow> ret () s
                 | Some h \<Rightarrow> invoke f (CancelSubscription h) s)
    (thenDo (modify (\<lambda>s. s\<lparr>tasksSubscription := None\<rparr>))
    (thenDo (\<lambda>s. case tasksObserver s of
                   None \<Rightarrow> ret () s
                 | Some h \<Rightarrow> thenDo (invoke f (CancelObserver h))
                                    (modify (\<lambda>s. s\<lparr>tasksObserver := None\<rparr>)) s)
    (thenDo (\<lambda>s. case localDittoInstance s of
                   None \<Rightarrow> ret () s
                 | Some i \<Rightarrow> invoke f (StopSync i) s)
    (thenDo (\<lambda>s. case localDittoInstance s of
                   None \<Rightarrow> ret () s
                 | Some i \<Rightarrow> invoke f (Close i) s)
    (thenDo (modify (\<lambda>s. s\<lparr>ditto := None\<rparr>))
            (modify (\<lambda>s. s\<lparr>dittoInstanceReady := False\<rparr>)))))))"

section \<open>The observer effect\<close>

text \<open>
  The body of the observer effect, lines 113 to 157, run with the values of
  \<^verbatim>\<open>searchQuery\<close> and \<^verbatim>\<open>dittoInstanceReady\<close> of its render. The result says whether the
  body returned a cleanup function: not on the early return of line 115. The cancellation of
  lines 119 to 122 stands before the \<^verbatim>\<open>try\<close>; reading \<^verbatim>\<open>ditto.current.store\<close> of a
  \<^verbatim>\<open>null\<close> reference throws inside it.
\<close>

definition observerEffect :: "faults \<Rightarrow> jsstring \<Rightarrow> bool \<Rightarrow> bool prog" where
  "observerEffect f searchQuery ready s =
     (if \<not> ready \<or> ditto s = None then ret False s
      else
        (thenDo (\<lambda>s. case tasksObserver s of
                       None \<Rightarrow> ret () s
                     | Some h \<Rightarrow> invoke f (CancelObserver h) s)
        (thenDo (tryCatch
                   (andThen (\<lambda>s. case ditto s of
                                   None \<Rightarrow> (Inl ''TypeError'', s)
                                 | Some d \<Rightarrow>
                                     construct f (RegisterObserver d (fst (buildQuery searchQuery))
                                                    (snd (buildQuery searchQuery))) s)
                            (\<lambda>h. modify (\<lambda>s. s\<lparr>tasksObserver := Some h\<rparr>)))
                   (\<lambda>e. thenDo (consoleError ''Error registering observer:'' e) (setError e)))
                (ret True))) s)"

text \<open>The callback given to \<^verbatim>\<open>registerObserver\<close>, lines 137 to 141.\<close>

definition observerCallback :: "QueryResult \<Rightarrow> app \<Rightarrow> app" where
  "observerCallback r s = s\<lparr>tasks := map item_value (items r)\<rparr>"

text \<open>The cleanup that the body returns, lines 150 to 156.\<close>

definition observerCleanup :: "faults \<Rightarrow> unit prog" where
  "observerCleanup f s =
     (case tasksObserver s of
        None \<Rightarrow> ret () s
      | Some h \<Rightarrow> thenDo (invoke f (CancelObserver h))
                         (modify (\<lambda>s. s\<lparr>tasksObserver := None\<rparr>)) s)"

section \<open>The mutations\<close>

text \<open>
  Lines 169 to 215. With \<^verbatim>\<open>ditto.current\<close> \<^verbatim>\<open>null\<close> the optional chain yields
  \<^verbatim>\<open>undefined\<close> without evaluating the call; awaiting it continues normally.
\<close>

definition execute :: "faults \<Rightarrow> jsstring \<Rightarrow> DQLQueryArguments \<Rightarrow> unit prog" where
  "execute f query args s =
     (case ditto s of
        None \<Rightarrow> ret () s
      | Some d \<Rightarrow> invoke f (Execute d query args) s)"

definition createTask :: "faults \<Rightarrow> jsstring \<Rightarrow> unit prog" where
  "createTask f title' =
     tryCatch
       (execute f (js ''INSERT INTO tasks DOCUMENTS (:task)'')
          [(js ''task'', JObject [(js ''title'', JString title'),
                                  (js ''done'', JBool False),
                                  (js ''deleted'', JBool False)])])
       (\<lambda>e. consoleError ''Failed to create task:'' e)"

definition editTask :: "faults \<Rightarrow> jsstring \<Rightarrow> jsstring \<Rightarrow> unit prog" where
  "editTask f id' title' =
     tryCatch
       (execute f (js ''UPDATE tasks SET title=:title WHERE _id=:id'')
          [(js ''id'', JString id'), (js ''title'', JString title')])
       (\<lambda>e. consoleError ''Failed to edit task:'' e)"

definition toggleTask :: "faults \<Rightarrow> Task \<Rightarrow> unit prog" where
  "toggleTask f task =
     tryCatch
       (execute f (js ''UPDATE tasks SET done=:done WHERE _id=:id'')
          [(js ''id'', JString (task_id task)), (js ''done'', JBool (\<not> task_done task))])
       (\<lambda>e. consoleError ''Failed to toggle task:'' e)"

definition deleteTask :: "faults \<Rightarrow> Task \<Rightarrow> unit prog" where
  "deleteTask f task =
     tryCatch
       (execute f (js ''UPDATE tasks SET deleted=true WHERE _id=:id'')
          [(js ''id'', JString (task_id task))])
       (\<lambda>e. consoleError ''Failed to delete task:'' e)"

text \<open>\<^verbatim>\<open>toggleSync\<close>, lines 159 to 166.\<close>

definition toggleSync :: "faults \<Rightarrow> unit prog" where
  "toggleSync f =
     thenDo (\<lambda>s. case ditto s of
                   None \<Rightarrow> ret () s
                 | Some d \<Rightarrow> if syncActive s then invoke f (StopSync d) s
                             else invoke f (StartSync d) s)
            (modify (\<lambda>s. s\<lparr>syncActive := \<not> syncActive s\<rparr>))"

section \<open>The life of the component\<close>

text \<open>The initial values of the hooks, lines 23 to 33, before any call into the SDK.\<close>

definition initial_app :: app where
  "initial_app =
     \<lparr> error = None, ditto = None, tasksSubscription = None, tasksObserver = None,
       syncActive = True, dittoInstanceReady = False, tasks = [], localDittoInstance = None,
       console_error = [], trace = [], next_object = 0 \<rparr>"

text \<open>
  What React adds to the state of the component: whether it is mounted, and whether the
  last run of the observer effect returned a cleanup that has not run yet.
\<close>

record component =
  state :: app
  mounted :: bool
  observerCleanupPending :: bool

definition initial_component :: component where
  "initial_component = \<lparr> state = initial_app, mounted = True, observerCleanupPending = False \<rparr>"

text \<open>
  What can happen to the component. \<open>ObserverDeps\<close> is a render in which \<^verbatim>\<open>searchQuery\<close> or
  \<^verbatim>\<open>dittoInstanceReady\<close> differ from the last one (or the first render): React runs the
  cleanup of the previous run of the observer effect, if it returned one, and then the body
  with the new values. \<open>ObserverUnmount\<close> runs that cleanup alone. \<open>Callback h r\<close> is the
  SDK invoking the callback registered with observer \<open>h\<close>. The other events run the function
  of the same name. An event carries the faults of the SDK during each function it runs
  (no function makes the same call twice). The values \<open>searchQuery\<close> and \<open>ready\<close> of a
  render are not tied to the state: any render is allowed. \<open>Setup\<close> runs the setup sequence
  to its end; the functions that call \<^verbatim>\<open>registerObserver\<close> or \<^verbatim>\<open>cancel\<close> on an observer
  (the observer effect and the two cleanups) have no \<^verbatim>\<open>await\<close> and run undivided.
\<close>

datatype event =
    Setup faults
  | InstanceCleanup faults
  | ObserverDeps faults faults jsstring bool
  | ObserverUnmount faults
  | Callback nat QueryResult
  | ToggleSync faults
  | CreateTask faults jsstring
  | EditTask faults jsstring jsstring
  | ToggleTask faults Task
  | DeleteTask faults Task

text \<open>
  An exception that leaves an effect or a cleanup is caught by React (version 17 and later),
  which goes on with the effects of the same commit and unmounts the component afterwards:
  the body of an effect runs even when the cleanup before it has thrown. No effect of an
  unmounted component runs again; its pending cleanups still do. An exception in an event
  handler or in an asynchronous function does not unmount.
\<close>

definition runEffect :: "unit prog \<Rightarrow> component \<Rightarrow> component" where
  "runEffect m c =
     (case m (state c) of
        (Inl e, s') \<Rightarrow> c\<lparr>state := s', mounted := False\<rparr>
      | (Inr _, s') \<Rightarrow> c\<lparr>state := s'\<rparr>)"

definition runHandler :: "unit prog \<Rightarrow> component \<Rightarrow> component" where
  "runHandler m c = c\<lparr>state := snd (m (state c))\<rparr>"

definition runObserverCleanup :: "faults \<Rightarrow> component \<Rightarrow> component" where
  "runObserverCleanup f c =
     (if observerCleanupPending c
      then runEffect (observerCleanup f) (c\<lparr>observerCleanupPending := False\<rparr>)
      else c)"

definition runObserverEffect ::
  "faults \<Rightarrow> faults \<Rightarrow> jsstring \<Rightarrow> bool \<Rightarrow> component \<Rightarrow> component" where
  "runObserverEffect fc fb searchQuery ready c =
     (if \<not> mounted c then c
      else let c1 = runObserverCleanup fc c
           in (case observerEffect fb searchQuery ready (state c1) of
                 (Inl e, s') \<Rightarrow> c1\<lparr>state := s', mounted := False\<rparr>
               | (Inr cleanup, s') \<Rightarrow> c1\<lparr>state := s', observerCleanupPending := cleanup\<rparr>))"

fun react :: "environment \<Rightarrow> event \<Rightarrow> component \<Rightarrow> component" where
  "react env (Setup f) c = runHandler (setupDittoInstance env f) c"
| "react env (InstanceCleanup f) c = runEffect (instanceCleanup f) c"
| "react env (ObserverDeps fc fb searchQuery ready) c =
     runObserverEffect fc fb searchQuery ready c"
| "react env (ObserverUnmount f) c = runObserverCleanup f c"
| "react env (Callback h r) c = c\<lparr>state := observerCallback r (state c)\<rparr>"
| "react env (ToggleSync f) c = runHandler (toggleSync f) c"
| "react env (CreateTask f t) c = runHandler (createTask f t) c"
| "react env (EditTask f i t) c = runHandler (editTask f i t) c"
| "react env (ToggleTask f task) c = runHandler (toggleTask f task) c"
| "react env (DeleteTask f task) c = runHandler (deleteTask f task) c"

definition run :: "environment \<Rightarrow> event list \<Rightarrow> component \<Rightarrow> component" where
  "run env evs c = fold (react env) evs c"

text \<open>
  The observers that are live after a history of calls: one is live from the call that
  created it to the call of its \<^verbatim>\<open>cancel\<close> that returned. A \<^verbatim>\<open>cancel\<close> that throws is
  taken to leave the observer live, and so is closing the instance.
\<close>

definition observer_step :: "nat list \<Rightarrow> sdk_event \<Rightarrow> nat list" where
  "observer_step live ev =
     (case ev of
        (RegisterObserver d q a, Created h) \<Rightarrow> live @ [h]
      | (CancelObserver h, Returned) \<Rightarrow> removeAll h live
      | _ \<Rightarrow> live)"

definition live_observers :: "sdk_event list \<Rightarrow> nat list" where
  "live_observers tr = foldl observer_step [] tr"

definition is_register :: "sdk_event \<Rightarrow> bool" where
  "is_register ev = (case fst ev of RegisterObserver d q a \<Rightarrow> True | _ \<Rightarrow> False)"

text \<open>
  A history of calls keeps one observer at a time when, read from the start, every
  registration of an observer is called while no observer is live and at most one observer
  is live after each call. \<open>one_at_a_time_from live\<close> reads a history that starts with the
  observers \<open>live\<close>.
\<close>

fun one_at_a_time_from :: "nat list \<Rightarrow> sdk_event list \<Rightarrow> bool" where
  "one_at_a_time_from live [] = True"
| "one_at_a_time_from live (ev # evs) =
     ((if is_register ev then live = [] else True)
      \<and> length (observer_step live ev) \<le> 1
      \<and> one_at_a_time_from (observer_step live ev) evs)"

definition one_at_a_time :: "sdk_event list \<Rightarrow> bool" where
  "one_at_a_time tr = one_at_a_time_from [] tr"

text \<open>
  What holds of the component after every event: its history keeps one observer at a time,
  and a live observer is the one held in \<^verbatim>\<open>tasksObserver.current\<close>.
\<close>

definition app_inv :: "app \<Rightarrow> bool" where
  "app_inv s \<longleftrightarrow>
     one_at_a_time (trace s) \<and> set (live_observers (trace s)) \<subseteq> set_option (tasksObserver s)"

section \<open>The steps of setup and of teardown\<close>

text \<open>
  A sequence of calls made one after the other until the first one throws: the calls made,
  with their outcomes, and the error thrown, if any. Each call comes with what it returns
  when it does not throw.
\<close>

fun attempt :: "faults \<Rightarrow> sdk_event list \<Rightarrow> sdk_event list \<times> js_error option" where
  "attempt f [] = ([], None)"
| "attempt f ((c, r) # rest) =
     (case f c of
        Some e \<Rightarrow> ([(c, Threw e)], Some e)
      | None \<Rightarrow> (case attempt f rest of (tr, failure) \<Rightarrow> ((c, r) # tr, failure)))"

text \<open>
  The calls of the setup sequence in the order of the specification (create the instance,
  set the transport configuration, disable the legacy protocol, start sync, register the
  subscription) for an instance numbered \<open>i\<close>, and what each returns when it does not throw.
\<close>

definition setup_calls :: "environment \<Rightarrow> nat \<Rightarrow> sdk_event list" where
  "setup_calls env i =
     [(NewDitto (identity env), Created i),
      (SetTransportConfig i (transportConfig env), Returned),
      (DisableSyncWithV3 i, Returned),
      (StartSync i, Returned),
      (RegisterSubscription i (js ''SELECT * FROM tasks''), Created (Suc i))]"

text \<open>
  The calls of teardown in the order of the specification: cancel the subscription, cancel
  the observer, stop sync, close the instance; each for the object that the state holds.
\<close>

definition teardown_calls :: "app \<Rightarrow> sdk_call list" where
  "teardown_calls s =
     (case tasksSubscription s of None \<Rightarrow> [] | Some h \<Rightarrow> [CancelSubscription h])
     @ (case tasksObserver s of None \<Rightarrow> [] | Some h \<Rightarrow> [CancelObserver h])
     @ (case localDittoInstance s of None \<Rightarrow> [] | Some i \<Rightarrow> [StopSync i, Close i])"

section \<open>The meaning of an update\<close>

text \<open>
  Modelled from the spec: the query engine is the SDK's and is not in the repository. The
  specification (section 6) names the statement form
  \<^verbatim>\<open>UPDATE <collection> SET <field>=:param WHERE _id=:id\<close> with named parameters. The
  following reads a statement of that form on the collection \<^verbatim>\<open>tasks\<close> as SQL does: the
  record whose \<^verbatim>\<open>_id\<close> is the argument \<^verbatim>\<open>id\<close> gets the named field set to the value
  of the right-hand side (a parameter or \<^verbatim>\<open>true\<close>/\<^verbatim>\<open>false\<close>); nothing else changes.
  \<open>None\<close> stands for a statement or arguments outside this form.
\<close>

type_synonym store = "jsstring \<rightharpoonup> Task"

fun strip_prefix :: "'a list \<Rightarrow> 'a list \<Rightarrow> 'a list option" where
  "strip_prefix [] ys = Some ys"
| "strip_prefix (x # xs) [] = None"
| "strip_prefix (x # xs) (y # ys) = (if x = y then strip_prefix xs ys else None)"

definition strip_suffix :: "'a list \<Rightarrow> 'a list \<Rightarrow> 'a list option" where
  "strip_suffix p ys = map_option rev (strip_prefix (rev p) (rev ys))"

definition rhs_value :: "jsstring \<Rightarrow> DQLQueryArguments \<Rightarrow> jsvalue option" where
  "rhs_value rhs args =
     (if rhs = js ''true'' then Some (JBool True)
      else if rhs = js ''false'' then Some (JBool False)
      else (case strip_prefix (js '':'') rhs of
              None \<Rightarrow> None
            | Some name \<Rightarrow> map_of args name))"

definition assign_field :: "jsstring \<Rightarrow> jsvalue \<Rightarrow> Task \<Rightarrow> Task option" where
  "assign_field field v doc =
     (if field = js ''title''
      then (case v of JString t \<Rightarrow> Some (doc\<lparr>title := t\<rparr>) | _ \<Rightarrow> None)
      else if field = js ''done''
      then (case v of JBool b \<Rightarrow> Some (doc\<lparr>task_done := b\<rparr>) | _ \<Rightarrow> None)
      else if field = js ''deleted''
      then (case v of JBool b \<Rightarrow> Some (doc\<lparr>deleted := b\<rparr>) | _ \<Rightarrow> None)
      else None)"

definition dql_update :: "jsstring \<Rightarrow> DQLQueryArguments \<Rightarrow> store \<Rightarrow> store option" where
  "dql_update statement args st =
     (case strip_prefix (js ''UPDATE tasks SET '') statement of
        None \<Rightarrow> None
      | Some r \<Rightarrow>
         (case strip_suffix (js '' WHERE _id=:id'') r of
            None \<Rightarrow> None
          | Some assignment \<Rightarrow>
             (let field = takeWhile (\<lambda>u. u \<noteq> 0x3D) assignment;
                  rhs = drop (Suc (length field)) assignment
              in case (rhs_value rhs args, map_of args (js ''id'')) of
                   (Some v, Some (JString i)) \<Rightarrow>
                     (case st i of
                        None \<Rightarrow> Some st
                      | Some doc \<Rightarrow>
                         (case assign_field field v doc of
                            None \<Rightarrow> None
                          | Some doc' \<Rightarrow> Some (st(i \<mapsto> doc'))))
                 | _ \<Rightarrow> None)))"

section \<open>Concrete runs\<close>

definition no_faults :: faults where
  "no_faults c = None"

definition fault_at :: "sdk_call \<Rightarrow> js_error \<Rightarrow> faults" where
  "fault_at c e c' = (if c' = c then Some e else None)"

definition example_env :: environment where
  "example_env =
     \<lparr> DITTO_APP_ID = Some (js ''app''), DITTO_PLAYGROUND_TOKEN = Some (js ''token''),
       DITTO_AUTH_URL = None, DITTO_WEBSOCKET_URL = Some (js ''wss://example'') \<rparr>"

definition milk :: Task where
  "milk = \<lparr> task_id = js ''t1'', title = js ''Buy milk'', task_done = False, deleted = False \<rparr>"

text \<open>
  Two query changes in a row: the observer of the first query is number 2, the one of the
  second query number 3.
\<close>

definition stale_run :: component where
  "stale_run =
     run example_env
       [Setup no_faults,
        ObserverDeps no_faults no_faults (js ''milk'') True,
        ObserverDeps no_faults no_faults (js ''eggs'') True]
       initial_component"

text \<open>
  A query change during which \<^verbatim>\<open>cancel\<close> throws in the cleanup, returns in the body, and
  the registration of the new observer throws.
\<close>

definition failed_registration_run :: component where
  "failed_registration_run =
     run example_env
       [Setup no_faults,
        ObserverDeps no_faults no_faults (js ''milk'') True,
        ObserverDeps (fault_at (CancelObserver 2) ''cancel failed'')
          (fault_at (RegisterObserver 0 (fst (buildQuery (js ''eggs'')))
                       (snd (buildQuery (js ''eggs'')))) ''registration failed'')
          (js ''eggs'') True]
       initial_component"

definition setup_rejected :: app where
  "setup_rejected =
     snd (setupDittoInstance example_env (fault_at (DisableSyncWithV3 0) ''rejected'') initial_app)"

definition example_ready :: app where
  "example_ready =
     snd (observerEffect no_faults (js ''milk'') True
            (snd (setupDittoInstance example_env no_faults initial_app)))"

section \<open>Properties of the query\<close>

lemma dropWhile_rev_keeps_head:
  assumes "xs = [] \<or> \<not> P (hd xs)"
  shows "dropWhile P (rev (dropWhile P (rev xs))) = rev (dropWhile P (rev xs))"
proof (cases xs)
  case Nil
  then show ?thesis by simp
next
  case (Cons x xs')
  with assms have nx: "\<not> P x" by simp
  have "dropWhile P (rev xs' @ [x]) = dropWhile P (rev xs') @ [x]"
    using nx by (simp add: dropWhile_append)
  then show ?thesis using Cons nx by simp
qed

lemma dropWhile_head: "dropWhile P xs = [] \<or> \<not> P (hd (dropWhile P xs))"
  by (metis hd_dropWhile)

lemma trim_idem: "trim (trim s) = trim s"
  unfolding trim_def
  using dropWhile_rev_keeps_head [where P = isWhiteSpace and xs = "dropWhile isWhiteSpace s"]
    dropWhile_head [where P = isWhiteSpace and xs = s]
  by simp

lemma trim_Nil: "trim [] = []"
  by (simp add: trim_def)

lemma trim_blank: "trim (js ''  '') = []"
  by (simp add: trim_def js_def isWhiteSpace_def)

lemma trim_milk: "trim (js ''milk'') = js ''milk''"
  by (simp add: trim_def js_def isWhiteSpace_def)

lemma buildQuery_empty:
  "buildQuery [] = (js ''SELECT * FROM tasks WHERE deleted=false'' @ js '' ORDER BY done'', [])"
  by (simp add: buildQuery_def)

text \<open>
  Claim C5. The query is a function of the search term alone. For the empty term the text
  has no \<^verbatim>\<open>ILIKE\<close> and ends with the ordering clause; a term of two spaces gives the
  same text and arguments as the empty term; for \<^verbatim>\<open>milk\<close> the argument
  \<^verbatim>\<open>searchQuery\<close> is the string \<^verbatim>\<open>%milk%\<close>.
\<close>

theorem buildQuery_examples:
  "\<not> sublist (js ''ILIKE'') (fst (buildQuery (js '''')))
   \<and> suffix (js '' ORDER BY done'') (fst (buildQuery (js '''')))
   \<and> buildQuery (js ''  '') = buildQuery (js '''')
   \<and> map_of (snd (buildQuery (js ''milk''))) (js ''searchQuery'') = Some (JString (js ''%milk%''))"
proof -
  have e: "js '''' = []" by (simp add: js_def)
  have a: "\<not> sublist (js ''ILIKE'') (fst (buildQuery (js '''')))"
    unfolding e buildQuery_empty by (simp add: js_def sublist_Cons_right prefix_Cons)
  have b: "suffix (js '' ORDER BY done'') (fst (buildQuery (js '''')))"
    unfolding e buildQuery_empty by (simp add: suffix_def)
  have c: "buildQuery (js ''  '') = buildQuery (js '''')"
    unfolding e by (simp add: buildQuery_def trim_blank trim_Nil)
  have m: "js ''milk'' \<noteq> []" by (simp add: js_def)
  have d: "map_of (snd (buildQuery (js ''milk''))) (js ''searchQuery'')
            = Some (JString (js ''%milk%''))"
    using m by (simp add: buildQuery_def trim_milk) (simp add: js_def)
  from a b c d show ?thesis by blast
qed

text \<open>
  Claim C10. For every search term, the query text and the arguments derived from the
  trimmed term are those derived from the term itself.
\<close>

theorem buildQuery_trim: "buildQuery (trim s) = buildQuery s"
proof (cases "trim s = []")
  case True
  then show ?thesis by (simp add: buildQuery_def trim_Nil)
next
  case False
  then have "s \<noteq> []" using trim_Nil by auto
  with False show ?thesis by (simp add: buildQuery_def trim_idem)
qed

section \<open>Properties of setup\<close>

lemmas prog_defs = ret_def andThen_def thenDo_def tryCatch_def modify_def invoke_def
  construct_def consoleError_def setError_def

text \<open>
  The setup sequence makes its five calls in order until the first one throws. It never
  throws itself. When a call throws, the error is logged and stored in \<open>error\<close>, the
  readiness flag and the subscription reference are left alone, and \<^verbatim>\<open>ditto.current\<close>
  holds the new instance unless the constructor was the call that threw. When no call
  throws, the flag is set and both references are stored.
\<close>

lemma setup_run:
  "fst (setupDittoInstance env f s) = Inr ()
   \<and> trace (snd (setupDittoInstance env f s))
       = trace s @ fst (attempt f (setup_calls env (next_object s)))
   \<and> (case snd (attempt f (setup_calls env (next_object s))) of
        Some e \<Rightarrow>
          error (snd (setupDittoInstance env f s)) = Some e
          \<and> dittoInstanceReady (snd (setupDittoInstance env f s)) = dittoInstanceReady s
          \<and> tasksSubscription (snd (setupDittoInstance env f s)) = tasksSubscription s
          \<and> ditto (snd (setupDittoInstance env f s))
              = (if f (NewDitto (identity env)) = None then Some (next_object s) else ditto s)
      | None \<Rightarrow>
          error (snd (setupDittoInstance env f s)) = error s
          \<and> dittoInstanceReady (snd (setupDittoInstance env f s))
          \<and> tasksSubscription (snd (setupDittoInstance env f s)) = Some (Suc (next_object s))
          \<and> ditto (snd (setupDittoInstance env f s)) = Some (next_object s))"
  by (cases "f (NewDitto (identity env))";
      cases "f (SetTransportConfig (next_object s) (transportConfig env))";
      cases "f (DisableSyncWithV3 (next_object s))";
      cases "f (StartSync (next_object s))";
      cases "f (RegisterSubscription (next_object s) (js ''SELECT * FROM tasks''))";
      simp add: setupDittoInstance_def prog_defs setup_calls_def)

lemma setup_rejected_eq:
  "setup_rejected = initial_app\<lparr>
      trace := [(NewDitto (identity example_env), Created 0),
                (SetTransportConfig 0 [js ''wss://example''], Returned),
                (DisableSyncWithV3 0, Threw ''rejected'')],
      next_object := 1, localDittoInstance := Some 0, ditto := Some 0,
      console_error := [(''Error during Ditto instance setup:'', ''rejected'')],
      error := Some ''rejected''\<rparr>"
  by (simp add: setup_rejected_def setupDittoInstance_def prog_defs fault_at_def initial_app_def
      transportConfig_def example_env_def js_def)

lemma setup_ok_eq:
  "snd (setupDittoInstance example_env no_faults initial_app)
     = initial_app\<lparr>
         trace := [(NewDitto (identity example_env), Created 0),
                   (SetTransportConfig 0 [js ''wss://example''], Returned),
                   (DisableSyncWithV3 0, Returned),
                   (StartSync 0, Returned),
                   (RegisterSubscription 0 (js ''SELECT * FROM tasks''), Created 1)],
         next_object := 2, localDittoInstance := Some 0, ditto := Some 0,
         tasksSubscription := Some 1, dittoInstanceReady := True\<rparr>"
  by (simp add: setupDittoInstance_def prog_defs no_faults_def initial_app_def
      transportConfig_def example_env_def js_def)

lemma setup_ok_trace:
  "trace (snd (setupDittoInstance example_env no_faults initial_app))
     = trace initial_app @ setup_calls example_env 0"
  unfolding setup_ok_eq
  by (simp add: setup_calls_def initial_app_def transportConfig_def example_env_def js_def)

text \<open>
  Claim C2, as the code has it. A run of the setup sequence never throws and makes the five
  calls in order up to the first that throws; the rest is skipped and the error is stored in
  the \<open>error\<close> state. The readiness flag \<^verbatim>\<open>dittoInstanceReady\<close>, on which the observer
  stage waits, is set only by a run in which no call throws. The instance reference
  \<^verbatim>\<open>ditto.current\<close> is stored as soon as the instance is constructed and stays stored
  when a later call throws.
\<close>

theorem setup_failure_semantics:
  "fst (setupDittoInstance env f s) = Inr ()
   \<and> trace (snd (setupDittoInstance env f s))
       = trace s @ fst (attempt f (setup_calls env (next_object s)))
   \<and> (case snd (attempt f (setup_calls env (next_object s))) of
        Some e \<Rightarrow>
          error (snd (setupDittoInstance env f s)) = Some e
          \<and> dittoInstanceReady (snd (setupDittoInstance env f s)) = dittoInstanceReady s
          \<and> tasksSubscription (snd (setupDittoInstance env f s)) = tasksSubscription s
          \<and> ditto (snd (setupDittoInstance env f s))
              = (if f (NewDitto (identity env)) = None then Some (next_object s) else ditto s)
      | None \<Rightarrow>
          error (snd (setupDittoInstance env f s)) = error s
          \<and> dittoInstanceReady (snd (setupDittoInstance env f s))
          \<and> tasksSubscription (snd (setupDittoInstance env f s)) = Some (Suc (next_object s))
          \<and> ditto (snd (setupDittoInstance env f s)) = Some (next_object s))"
  by (rule setup_run)

text \<open>
  The theorem at a run in which the promise of \<^verbatim>\<open>disableSyncWithV3\<close> rejects: two calls
  returned, the third threw, start sync and the subscription were skipped.
\<close>

theorem setup_failure_semantics_witness:
  "trace setup_rejected
     = trace initial_app
       @ [(NewDitto (identity example_env), Created 0),
          (SetTransportConfig 0 (transportConfig example_env), Returned),
          (DisableSyncWithV3 0, Threw ''rejected'')]
   \<and> error setup_rejected = Some ''rejected''
   \<and> dittoInstanceReady setup_rejected = dittoInstanceReady initial_app
   \<and> ditto setup_rejected = Some 0"
proof -
  have n: "next_object initial_app = 0" by (simp add: initial_app_def)
  have a: "attempt (fault_at (DisableSyncWithV3 0) ''rejected'') (setup_calls example_env 0)
            = ([(NewDitto (identity example_env), Created 0),
                (SetTransportConfig 0 (transportConfig example_env), Returned),
                (DisableSyncWithV3 0, Threw ''rejected'')], Some ''rejected'')"
    by (simp add: setup_calls_def fault_at_def)
  have c: "fault_at (DisableSyncWithV3 0) ''rejected'' (NewDitto (identity example_env)) = None"
    by (simp add: fault_at_def)
  show ?thesis
    using setup_failure_semantics
      [of example_env "fault_at (DisableSyncWithV3 0) ''rejected''" initial_app,
       folded setup_rejected_def]
    by (simp add: n a c)
qed

text \<open>
  Claim C2 as stated fails. After a run in which the third step throws, the flag is not set,
  yet \<^verbatim>\<open>ditto.current\<close> holds the instance on which sync was never started, and a
  mutation called afterwards executes its statement on that instance.
\<close>

theorem setup_publishes_early:
  "error setup_rejected = Some ''rejected''
   \<and> dittoInstanceReady setup_rejected = False
   \<and> ditto setup_rejected = Some 0
   \<and> trace (snd (createTask no_faults (js ''Buy milk'') setup_rejected))
       = trace setup_rejected
         @ [(Execute 0 (js ''INSERT INTO tasks DOCUMENTS (:task)'')
               [(js ''task'', JObject [(js ''title'', JString (js ''Buy milk'')),
                                       (js ''done'', JBool False),
                                       (js ''deleted'', JBool False)])], Returned)]"
  by (simp add: setup_rejected_eq initial_app_def createTask_def execute_def prog_defs no_faults_def)

text \<open>
  Claim C6. In every run of the setup sequence, a call of \<^verbatim>\<open>startSync\<close> comes directly
  after \<^verbatim>\<open>setTransportConfig\<close> has returned and the awaited \<^verbatim>\<open>disableSyncWithV3\<close> has
  resolved, in this order, on the instance that the run constructed.
\<close>

theorem startSync_after_configuration:
  assumes "trace (snd (setupDittoInstance env f s)) = trace s @ new"
    and "(StartSync i, r) \<in> set new"
  shows "\<exists>post. new = [(NewDitto (identity env), Created i),
                        (SetTransportConfig i (transportConfig env), Returned),
                        (DisableSyncWithV3 i, Returned),
                        (StartSync i, r)] @ post"
proof -
  have new: "new = fst (attempt f (setup_calls env (next_object s)))"
    using assms(1) setup_run [of env f s] by simp
  show ?thesis
    using assms(2) unfolding new
    by (cases "f (NewDitto (identity env))";
        cases "f (SetTransportConfig (next_object s) (transportConfig env))";
        cases "f (DisableSyncWithV3 (next_object s))";
        cases "f (StartSync (next_object s))";
        cases "f (RegisterSubscription (next_object s) (js ''SELECT * FROM tasks''))";
        auto simp add: setup_calls_def)
qed

theorem startSync_after_configuration_witness:
  "trace (snd (setupDittoInstance example_env no_faults initial_app))
     = trace initial_app @ setup_calls example_env 0
   \<and> (StartSync 0, Returned) \<in> set (setup_calls example_env 0)
   \<and> (\<exists>post. setup_calls example_env 0
        = [(NewDitto (identity example_env), Created 0),
           (SetTransportConfig 0 (transportConfig example_env), Returned),
           (DisableSyncWithV3 0, Returned),
           (StartSync 0, Returned)] @ post)"
proof -
  have m: "(StartSync 0, Returned) \<in> set (setup_calls example_env 0)"
    by (simp add: setup_calls_def)
  show ?thesis
    using setup_ok_trace m startSync_after_configuration [OF setup_ok_trace m] by simp
qed

section \<open>Properties of teardown\<close>

lemma teardown_run:
  "trace (snd (instanceCleanup f s))
     = trace s @ fst (attempt f (map (\<lambda>c. (c, Returned)) (teardown_calls s)))
   \<and> (case snd (attempt f (map (\<lambda>c. (c, Returned)) (teardown_calls s))) of
        None \<Rightarrow>
          fst (instanceCleanup f s) = Inr ()
          \<and> tasksSubscription (snd (instanceCleanup f s)) = None
          \<and> tasksObserver (snd (instanceCleanup f s)) = None
          \<and> ditto (snd (instanceCleanup f s)) = None
          \<and> dittoInstanceReady (snd (instanceCleanup f s)) = False
      | Some e \<Rightarrow>
          fst (instanceCleanup f s) = Inl e
          \<and> ditto (snd (instanceCleanup f s)) = ditto s
          \<and> dittoInstanceReady (snd (instanceCleanup f s)) = dittoInstanceReady s)"
  by (cases "tasksSubscription s"; cases "tasksObserver s"; cases "localDittoInstance s";
      cases "f (CancelSubscription (the (tasksSubscription s)))";
      cases "f (CancelObserver (the (tasksObserver s)))";
      cases "f (StopSync (the (localDittoInstance s)))";
      cases "f (Close (the (localDittoInstance s)))";
      simp add: instanceCleanup_def prog_defs teardown_calls_def)

lemma example_ready_eq:
  "example_ready
     = initial_app\<lparr>
         trace := [(NewDitto (identity example_env), Created 0),
                   (SetTransportConfig 0 [js ''wss://example''], Returned),
                   (DisableSyncWithV3 0, Returned),
                   (StartSync 0, Returned),
                   (RegisterSubscription 0 (js ''SELECT * FROM tasks''), Created 1),
                   (RegisterObserver 0 (fst (buildQuery (js ''milk'')))
                      (snd (buildQuery (js ''milk''))), Created 2)],
         next_object := 3, localDittoInstance := Some 0, ditto := Some 0,
         tasksSubscription := Some 1, dittoInstanceReady := True, tasksObserver := Some 2\<rparr>"
  unfolding example_ready_def setup_ok_eq
  by (simp add: observerEffect_def prog_defs no_faults_def initial_app_def)

text \<open>
  Claim C4, as the code has it. Teardown calls, in this order, \<^verbatim>\<open>cancel\<close> on the
  subscription, \<^verbatim>\<open>cancel\<close> on the observer, \<^verbatim>\<open>stopSync\<close> and \<^verbatim>\<open>close\<close> on the instance
  (each for the object it holds), until the first call throws. When none throws, the three
  references are cleared and the readiness flag is reset. When one throws, the exception
  leaves the cleanup: no later call is made, and the instance reference and the flag stay
  as they were.
\<close>

theorem teardown_in_order:
  "trace (snd (instanceCleanup f s))
     = trace s @ fst (attempt f (map (\<lambda>c. (c, Returned)) (teardown_calls s)))
   \<and> (case snd (attempt f (map (\<lambda>c. (c, Returned)) (teardown_calls s))) of
        None \<Rightarrow>
          fst (instanceCleanup f s) = Inr ()
          \<and> tasksSubscription (snd (instanceCleanup f s)) = None
          \<and> tasksObserver (snd (instanceCleanup f s)) = None
          \<and> ditto (snd (instanceCleanup f s)) = None
          \<and> dittoInstanceReady (snd (instanceCleanup f s)) = False
      | Some e \<Rightarrow>
          fst (instanceCleanup f s) = Inl e
          \<and> ditto (snd (instanceCleanup f s)) = ditto s
          \<and> dittoInstanceReady (snd (instanceCleanup f s)) = dittoInstanceReady s)"
  by (rule teardown_run)

text \<open>The theorem at a teardown of a ready component in which no call throws.\<close>

theorem teardown_in_order_witness:
  "trace (snd (instanceCleanup no_faults example_ready))
     = trace example_ready
       @ [(CancelSubscription 1, Returned), (CancelObserver 2, Returned),
          (StopSync 0, Returned), (Close 0, Returned)]
   \<and> fst (instanceCleanup no_faults example_ready) = Inr ()
   \<and> tasksSubscription (snd (instanceCleanup no_faults example_ready)) = None
   \<and> tasksObserver (snd (instanceCleanup no_faults example_ready)) = None
   \<and> ditto (snd (instanceCleanup no_faults example_ready)) = None
   \<and> dittoInstanceReady (snd (instanceCleanup no_faults example_ready)) = False"
proof -
  have c: "teardown_calls example_ready
            = [CancelSubscription 1, CancelObserver 2, StopSync 0, Close 0]"
    by (simp add: example_ready_eq teardown_calls_def initial_app_def)
  show ?thesis
    using teardown_in_order [of no_faults example_ready]
    by (simp add: c no_faults_def)
qed

text \<open>
  Claim C4 as stated fails. When the first step throws, the cleanup makes no further step:
  it does not cancel the observer, stop sync or close the instance, and it clears no
  reference.
\<close>

theorem teardown_stops_at_failure:
  "tasksSubscription example_ready = Some 1
   \<and> tasksObserver example_ready = Some 2
   \<and> localDittoInstance example_ready = Some 0
   \<and> instanceCleanup (fault_at (CancelSubscription 1) ''cancel failed'') example_ready
       = (Inl ''cancel failed'',
          example_ready\<lparr>trace := trace example_ready
                                   @ [(CancelSubscription 1, Threw ''cancel failed'')]\<rparr>)"
  unfolding example_ready_eq
  by (simp add: instanceCleanup_def prog_defs fault_at_def initial_app_def)

section \<open>Properties of the mutations\<close>

text \<open>
  Claim C9. With no instance in \<^verbatim>\<open>ditto.current\<close>, each of the four mutations returns
  normally and leaves the whole state as it was: no call into the SDK, no line on the
  console, no change of \<open>error\<close>.
\<close>

theorem mutations_without_instance:
  assumes "ditto s = None"
  shows "createTask f t s = (Inr (), s) \<and> editTask f i t s = (Inr (), s)
       \<and> toggleTask f task s = (Inr (), s) \<and> deleteTask f task s = (Inr (), s)"
  using assms
  by (simp add: createTask_def editTask_def toggleTask_def deleteTask_def execute_def
      tryCatch_def ret_def)

theorem mutations_without_instance_witness:
  "ditto initial_app = None
   \<and> createTask no_faults (js ''Buy milk'') initial_app = (Inr (), initial_app)
   \<and> editTask no_faults (js ''t1'') (js ''Buy eggs'') initial_app = (Inr (), initial_app)
   \<and> toggleTask no_faults milk initial_app = (Inr (), initial_app)
   \<and> deleteTask no_faults milk initial_app = (Inr (), initial_app)"
proof -
  have h: "ditto initial_app = None" by (simp add: initial_app_def)
  show ?thesis using h mutations_without_instance [OF h] by simp
qed

lemma toggle_statement:
  "strip_prefix (js ''UPDATE tasks SET '') (js ''UPDATE tasks SET done=:done WHERE _id=:id'')
     = Some (js ''done=:done WHERE _id=:id'')"
  by (simp add: js_def)

lemma toggle_assignment:
  "strip_suffix (js '' WHERE _id=:id'') (js ''done=:done WHERE _id=:id'') = Some (js ''done=:done'')"
  by (simp add: js_def strip_suffix_def)

lemma toggle_update:
  assumes "st (task_id task) = Some doc"
  shows "dql_update (js ''UPDATE tasks SET done=:done WHERE _id=:id'')
           [(js ''id'', JString (task_id task)), (js ''done'', JBool (\<not> task_done task))] st
         = Some (st(task_id task \<mapsto> doc\<lparr>task_done := \<not> task_done task\<rparr>))"
proof -
  have f: "takeWhile (\<lambda>u. u \<noteq> 0x3D) (js ''done=:done'') = js ''done''"
    by (simp add: js_def)
  have r: "drop 5 (js ''done=:done'') = js '':done''" by (simp add: js_def)
  have l: "length (js ''done'') = 4" by (simp add: js_def)
  have v: "rhs_value (js '':done'')
             [(js ''id'', JString (task_id task)), (js ''done'', JBool (\<not> task_done task))]
            = Some (JBool (\<not> task_done task))"
    by (simp add: rhs_value_def js_def)
  have a: "assign_field (js ''done'') (JBool b) doc = Some (doc\<lparr>task_done := b\<rparr>)" for b
    by (simp add: assign_field_def js_def)
  show ?thesis
    using assms
    by (simp add: dql_update_def toggle_statement toggle_assignment f r l v a Let_def)
qed

lemma toggle_call:
  assumes "ditto s = Some d"
  shows "toggleTask f task s
         = (Inr (),
            (case f (Execute d (js ''UPDATE tasks SET done=:done WHERE _id=:id'')
                       [(js ''id'', JString (task_id task)),
                        (js ''done'', JBool (\<not> task_done task))]) of
               None \<Rightarrow>
                 s\<lparr>trace := trace s
                     @ [(Execute d (js ''UPDATE tasks SET done=:done WHERE _id=:id'')
                           [(js ''id'', JString (task_id task)),
                            (js ''done'', JBool (\<not> task_done task))], Returned)]\<rparr>
             | Some e \<Rightarrow>
                 s\<lparr>trace := trace s
                     @ [(Execute d (js ''UPDATE tasks SET done=:done WHERE _id=:id'')
                           [(js ''id'', JString (task_id task)),
                            (js ''done'', JBool (\<not> task_done task))], Threw e)],
                   console_error := console_error s @ [(''Failed to toggle task:'', e)]\<rparr>))"
  using assms
  by (cases "f (Execute d (js ''UPDATE tasks SET done=:done WHERE _id=:id'')
                  [(js ''id'', JString (task_id task)), (js ''done'', JBool (\<not> task_done task))])")
    (simp_all add: toggleTask_def execute_def prog_defs)

text \<open>
  Claim C8. With an instance present, \<^verbatim>\<open>toggleTask\<close> returns normally after one call of
  \<^verbatim>\<open>execute\<close>: the statement \<^verbatim>\<open>UPDATE tasks SET done=:done WHERE _id=:id\<close> with the
  arguments \<^verbatim>\<open>id\<close>, the \<^verbatim>\<open>_id\<close> of the task passed in, and \<^verbatim>\<open>done\<close>, the negation of
  the \<^verbatim>\<open>done\<close> of the task passed in. Nothing is read from the store. Applied to a store
  that has a record with that \<^verbatim>\<open>_id\<close>, the statement sets the \<^verbatim>\<open>done\<close> of the record to
  that negation, whatever the record's own \<^verbatim>\<open>done\<close> was, and leaves its other fields
  (\<^verbatim>\<open>title\<close>, \<^verbatim>\<open>deleted\<close>) and all other records as they were.
\<close>

theorem toggleTask_sets_negation:
  assumes "ditto s = Some d" and "st (task_id task) = Some doc"
  shows "fst (toggleTask f task s) = Inr ()
       \<and> (\<exists>r. trace (snd (toggleTask f task s))
                = trace s @ [(Execute d (js ''UPDATE tasks SET done=:done WHERE _id=:id'')
                                [(js ''id'', JString (task_id task)),
                                 (js ''done'', JBool (\<not> task_done task))], r)])
       \<and> dql_update (js ''UPDATE tasks SET done=:done WHERE _id=:id'')
            [(js ''id'', JString (task_id task)), (js ''done'', JBool (\<not> task_done task))] st
          = Some (st(task_id task \<mapsto> doc\<lparr>task_done := \<not> task_done task\<rparr>))"
proof -
  have "fst (toggleTask f task s) = Inr ()"
    by (simp add: toggle_call [OF assms(1)])
  moreover have "\<exists>r. trace (snd (toggleTask f task s))
                = trace s @ [(Execute d (js ''UPDATE tasks SET done=:done WHERE _id=:id'')
                                [(js ''id'', JString (task_id task)),
                                 (js ''done'', JBool (\<not> task_done task))], r)]"
    by (cases "f (Execute d (js ''UPDATE tasks SET done=:done WHERE _id=:id'')
                  [(js ''id'', JString (task_id task)), (js ''done'', JBool (\<not> task_done task))])")
      (simp_all add: toggle_call [OF assms(1)])
  ultimately show ?thesis using toggle_update [of st task doc] assms(2) by simp
qed

text \<open>
  The theorem at a task that the caller knows as not done while the store already has it
  done: the update writes \<^verbatim>\<open>done = true\<close>, the negation of the caller's value.
\<close>

theorem toggleTask_sets_negation_witness:
  "ditto example_ready = Some 0
   \<and> [js ''t1'' \<mapsto> milk\<lparr>task_done := True\<rparr>] (task_id milk) = Some (milk\<lparr>task_done := True\<rparr>)
   \<and> fst (toggleTask no_faults milk example_ready) = Inr ()
   \<and> dql_update (js ''UPDATE tasks SET done=:done WHERE _id=:id'')
        [(js ''id'', JString (js ''t1'')), (js ''done'', JBool True)]
        [js ''t1'' \<mapsto> milk\<lparr>task_done := True\<rparr>]
      = Some [js ''t1'' \<mapsto> milk\<lparr>task_done := True\<rparr>]"
proof -
  have d: "ditto example_ready = Some 0" by (simp add: example_ready_eq initial_app_def)
  have r: "[js ''t1'' \<mapsto> milk\<lparr>task_done := True\<rparr>] (task_id milk) = Some (milk\<lparr>task_done := True\<rparr>)"
    by (simp add: milk_def)
  have m: "task_id milk = js ''t1''" "task_done milk = False" by (simp_all add: milk_def)
  show ?thesis
    using d r
      toggleTask_sets_negation
        [where s = example_ready and d = 0 and task = milk and f = no_faults
           and st = "[js ''t1'' \<mapsto> milk\<lparr>task_done := True\<rparr>]"
           and doc = "milk\<lparr>task_done := True\<rparr>"]
    by (simp add: m)
qed

section \<open>Properties of the observer\<close>

lemma live_observers_append:
  "live_observers (tr @ evs) = foldl observer_step (live_observers tr) evs"
  by (simp add: live_observers_def)

lemma one_at_a_time_from_append:
  "one_at_a_time_from live (xs @ ys)
     \<longleftrightarrow> one_at_a_time_from live xs \<and> one_at_a_time_from (foldl observer_step live xs) ys"
  by (induction xs arbitrary: live) auto

lemma one_at_a_time_append:
  "one_at_a_time (tr @ evs) \<longleftrightarrow> one_at_a_time tr \<and> one_at_a_time_from (live_observers tr) evs"
  by (simp add: one_at_a_time_def one_at_a_time_from_append live_observers_def)

lemma one_at_a_time_from_length:
  "one_at_a_time_from live xs \<Longrightarrow> length live \<le> 1 \<Longrightarrow> length (foldl observer_step live xs) \<le> 1"
  by (induction xs arbitrary: live) auto

lemma one_at_a_time_live: "one_at_a_time tr \<Longrightarrow> length (live_observers tr) \<le> Suc 0"
  using one_at_a_time_from_length [of "[]" tr] by (simp add: one_at_a_time_def live_observers_def)

lemma one_at_a_time_prefix:
  assumes "one_at_a_time tr"
  shows "length (live_observers (take n tr)) \<le> 1"
    and "n < length tr \<Longrightarrow> is_register (tr ! n) \<Longrightarrow> live_observers (take n tr) = []"
proof -
  have "one_at_a_time_from [] (take n tr @ drop n tr)"
    using assms by (simp add: one_at_a_time_def)
  then have a: "one_at_a_time_from [] (take n tr)"
    and b: "one_at_a_time_from (live_observers (take n tr)) (drop n tr)"
    unfolding one_at_a_time_from_append live_observers_def by simp_all
  from one_at_a_time_from_length [OF a] show "length (live_observers (take n tr)) \<le> 1"
    by (simp add: live_observers_def)
  assume "n < length tr" and r: "is_register (tr ! n)"
  then have "drop n tr = tr ! n # drop (Suc n) tr"
    by (simp add: Cons_nth_drop_Suc)
  with b r show "live_observers (take n tr) = []" by simp
qed

lemma removeAll_only: "set xs \<subseteq> {h} \<Longrightarrow> removeAll h xs = []"
  by (induction xs) auto

subsection \<open>Every function keeps the invariant\<close>

lemma app_inv_setup: "app_inv s \<Longrightarrow> app_inv (snd (setupDittoInstance env f s))"
  using one_at_a_time_live [of "trace s"]
  by (cases "f (NewDitto (identity env))";
      cases "f (SetTransportConfig (next_object s) (transportConfig env))";
      cases "f (DisableSyncWithV3 (next_object s))";
      cases "f (StartSync (next_object s))";
      cases "f (RegisterSubscription (next_object s) (js ''SELECT * FROM tasks''))";
      simp add: setupDittoInstance_def prog_defs app_inv_def one_at_a_time_append
        live_observers_append observer_step_def is_register_def)

lemma app_inv_execute: "app_inv s \<Longrightarrow> app_inv (snd (tryCatch (execute f q a) (consoleError m) s))"
  using one_at_a_time_live [of "trace s"]
  by (cases "ditto s"; cases "f (Execute (the (ditto s)) q a)";
      simp add: execute_def prog_defs app_inv_def one_at_a_time_append
        live_observers_append observer_step_def is_register_def)

lemma app_inv_toggleSync: "app_inv s \<Longrightarrow> app_inv (snd (toggleSync f s))"
  using one_at_a_time_live [of "trace s"]
  by (cases "ditto s"; cases "f (StopSync (the (ditto s)))"; cases "f (StartSync (the (ditto s)))";
      simp add: toggleSync_def prog_defs app_inv_def one_at_a_time_append
        live_observers_append observer_step_def is_register_def)

lemma app_inv_observerCleanup: "app_inv s \<Longrightarrow> app_inv (snd (observerCleanup f s))"
  using one_at_a_time_live [of "trace s"]
  by (cases "tasksObserver s"; cases "f (CancelObserver (the (tasksObserver s)))";
      simp add: observerCleanup_def prog_defs app_inv_def one_at_a_time_append
        live_observers_append observer_step_def is_register_def removeAll_only)

lemma app_inv_instanceCleanup: "app_inv s \<Longrightarrow> app_inv (snd (instanceCleanup f s))"
  using one_at_a_time_live [of "trace s"]
  by (cases "tasksSubscription s"; cases "tasksObserver s"; cases "localDittoInstance s";
      cases "f (CancelSubscription (the (tasksSubscription s)))";
      cases "f (CancelObserver (the (tasksObserver s)))";
      cases "f (StopSync (the (localDittoInstance s)))";
      cases "f (Close (the (localDittoInstance s)))";
      simp add: instanceCleanup_def prog_defs app_inv_def one_at_a_time_append
        live_observers_append observer_step_def is_register_def removeAll_only)

lemma app_inv_observerEffect: "app_inv s \<Longrightarrow> app_inv (snd (observerEffect f q r s))"
  using one_at_a_time_live [of "trace s"]
  by (cases "tasksObserver s"; cases "ditto s";
      cases "f (CancelObserver (the (tasksObserver s)))";
      cases "f (RegisterObserver (the (ditto s)) (fst (buildQuery q)) (snd (buildQuery q)))";
      simp add: observerEffect_def prog_defs app_inv_def one_at_a_time_append
        live_observers_append observer_step_def is_register_def removeAll_only)

lemma app_inv_runEffect: "app_inv (snd (m (state c))) \<Longrightarrow> app_inv (state (runEffect m c))"
  by (cases "m (state c)"; cases "fst (m (state c))") (simp_all add: runEffect_def)

lemma app_inv_runObserverCleanup:
  "app_inv (state c) \<Longrightarrow> app_inv (state (runObserverCleanup f c))"
  using app_inv_runEffect [of "observerCleanup f" "c\<lparr>observerCleanupPending := False\<rparr>"]
    app_inv_observerCleanup [of "state c" f]
  by (simp add: runObserverCleanup_def)

lemma app_inv_runObserverEffect:
  assumes "app_inv (state c)"
  shows "app_inv (state (runObserverEffect fc fb q r c))"
proof (cases "mounted c")
  case False
  with assms show ?thesis by (simp add: runObserverEffect_def)
next
  case True
  have "app_inv (snd (observerEffect fb q r (state (runObserverCleanup fc c))))"
    by (rule app_inv_observerEffect [OF app_inv_runObserverCleanup [OF assms]])
  then show ?thesis using True
    by (cases "observerEffect fb q r (state (runObserverCleanup fc c))";
        cases "fst (observerEffect fb q r (state (runObserverCleanup fc c)))")
      (simp_all add: runObserverEffect_def Let_def)
qed

lemma app_inv_react:
  assumes "app_inv (state c)"
  shows "app_inv (state (react env ev c))"
proof (cases ev)
  case (Setup f)
  then show ?thesis using app_inv_setup [OF assms] by (simp add: runHandler_def)
next
  case (InstanceCleanup f)
  then show ?thesis
    using app_inv_runEffect [of "instanceCleanup f" c] app_inv_instanceCleanup [OF assms] by simp
next
  case (ObserverDeps fc fb q r)
  then show ?thesis using app_inv_runObserverEffect [OF assms] by simp
next
  case (ObserverUnmount f)
  then show ?thesis using app_inv_runObserverCleanup [OF assms] by simp
next
  case (Callback h r)
  then show ?thesis using assms by (simp add: app_inv_def observerCallback_def)
next
  case (ToggleSync f)
  then show ?thesis using app_inv_toggleSync [OF assms] by (simp add: runHandler_def)
next
  case (CreateTask f t)
  then show ?thesis using app_inv_execute [OF assms] by (simp add: runHandler_def createTask_def)
next
  case (EditTask f i t)
  then show ?thesis using app_inv_execute [OF assms] by (simp add: runHandler_def editTask_def)
next
  case (ToggleTask f t)
  then show ?thesis using app_inv_execute [OF assms] by (simp add: runHandler_def toggleTask_def)
next
  case (DeleteTask f t)
  then show ?thesis using app_inv_execute [OF assms] by (simp add: runHandler_def deleteTask_def)
qed

lemma app_inv_initial: "app_inv (state initial_component)"
  by (simp add: app_inv_def initial_component_def initial_app_def one_at_a_time_def
      live_observers_def)

lemma app_inv_fold: "app_inv (state c) \<Longrightarrow> app_inv (state (fold (react env) evs c))"
  by (induction evs arbitrary: c) (simp_all add: app_inv_react)

lemma app_inv_run: "app_inv (state (run env evs initial_component))"
  unfolding run_def by (rule app_inv_fold [OF app_inv_initial])

subsection \<open>What the functions leave alone\<close>

lemma setup_keeps: "tasks (snd (setupDittoInstance env f s)) = tasks s"
  by (cases "f (NewDitto (identity env))";
      cases "f (SetTransportConfig (next_object s) (transportConfig env))";
      cases "f (DisableSyncWithV3 (next_object s))";
      cases "f (StartSync (next_object s))";
      cases "f (RegisterSubscription (next_object s) (js ''SELECT * FROM tasks''))";
      simp add: setupDittoInstance_def prog_defs)

lemma execute_keeps: "tasks (snd (tryCatch (execute f q a) (consoleError m) s)) = tasks s"
  by (cases "ditto s"; cases "f (Execute (the (ditto s)) q a)"; simp add: execute_def prog_defs)

lemma toggleSync_keeps: "tasks (snd (toggleSync f s)) = tasks s"
  by (cases "ditto s"; cases "f (StopSync (the (ditto s)))"; cases "f (StartSync (the (ditto s)))";
      simp add: toggleSync_def prog_defs)

lemma instanceCleanup_keeps: "tasks (snd (instanceCleanup f s)) = tasks s"
  by (cases "tasksSubscription s"; cases "tasksObserver s"; cases "localDittoInstance s";
      cases "f (CancelSubscription (the (tasksSubscription s)))";
      cases "f (CancelObserver (the (tasksObserver s)))";
      cases "f (StopSync (the (localDittoInstance s)))";
      cases "f (Close (the (localDittoInstance s)))";
      simp add: instanceCleanup_def prog_defs)

lemma observerCleanup_keeps: "tasks (snd (observerCleanup f s)) = tasks s"
  by (cases "tasksObserver s"; cases "f (CancelObserver (the (tasksObserver s)))";
      simp add: observerCleanup_def prog_defs)

lemma observerEffect_keeps: "tasks (snd (observerEffect f q r s)) = tasks s"
  by (cases "tasksObserver s"; cases "ditto s";
      cases "f (CancelObserver (the (tasksObserver s)))";
      cases "f (RegisterObserver (the (ditto s)) (fst (buildQuery q)) (snd (buildQuery q)))";
      simp add: observerEffect_def prog_defs)

lemma runEffect_keeps:
  "tasks (snd (m (state c))) = tasks (state c) \<Longrightarrow> tasks (state (runEffect m c)) = tasks (state c)"
  by (cases "m (state c)"; cases "fst (m (state c))") (simp_all add: runEffect_def)

lemma runObserverCleanup_keeps: "tasks (state (runObserverCleanup f c)) = tasks (state c)"
  using runEffect_keeps [of "observerCleanup f" "c\<lparr>observerCleanupPending := False\<rparr>"]
    observerCleanup_keeps [of f "state c"]
  by (simp add: runObserverCleanup_def)

lemma runObserverEffect_keeps: "tasks (state (runObserverEffect fc fb q r c)) = tasks (state c)"
  using runObserverCleanup_keeps [of fc c]
    observerEffect_keeps [of fb q r "state (runObserverCleanup fc c)"]
  by (cases "observerEffect fb q r (state (runObserverCleanup fc c))";
      cases "fst (observerEffect fb q r (state (runObserverCleanup fc c)))")
    (simp_all add: runObserverEffect_def Let_def)

subsection \<open>Two concrete runs\<close>

lemma mounted_run_eq:
  "run example_env [Setup no_faults, ObserverDeps no_faults no_faults (js ''milk'') True]
     initial_component
   = \<lparr> state = example_ready, mounted = True, observerCleanupPending = True \<rparr>"
proof -
  have 1: "react example_env (Setup no_faults) initial_component
            = initial_component\<lparr>state := snd (setupDittoInstance example_env no_faults initial_app)\<rparr>"
    by (simp add: runHandler_def initial_component_def)
  have 2: "react example_env (ObserverDeps no_faults no_faults (js ''milk'') True)
             (initial_component\<lparr>state := snd (setupDittoInstance example_env no_faults initial_app)\<rparr>)
            = \<lparr> state = example_ready, mounted = True, observerCleanupPending = True \<rparr>"
    unfolding setup_ok_eq example_ready_eq
    by (simp add: runObserverEffect_def runObserverCleanup_def initial_component_def
        observerEffect_def prog_defs no_faults_def initial_app_def)
  show ?thesis
    unfolding run_def by (simp only: fold_simps id_apply comp_apply 1 2)
qed

lemma stale_run_eq:
  "stale_run =
     \<lparr> state = example_ready\<lparr>
         trace := trace example_ready
                  @ [(CancelObserver 2, Returned),
                     (RegisterObserver 0 (fst (buildQuery (js ''eggs'')))
                        (snd (buildQuery (js ''eggs''))), Created 3)],
         next_object := 4, tasksObserver := Some 3\<rparr>,
       mounted = True, observerCleanupPending = True \<rparr>"
proof -
  have "stale_run
        = react example_env (ObserverDeps no_faults no_faults (js ''eggs'') True)
            (run example_env [Setup no_faults, ObserverDeps no_faults no_faults (js ''milk'') True]
               initial_component)"
    by (simp add: stale_run_def run_def)
  also have "\<dots> = \<lparr> state = example_ready\<lparr>
         trace := trace example_ready
                  @ [(CancelObserver 2, Returned),
                     (RegisterObserver 0 (fst (buildQuery (js ''eggs'')))
                        (snd (buildQuery (js ''eggs''))), Created 3)],
         next_object := 4, tasksObserver := Some 3\<rparr>,
       mounted = True, observerCleanupPending = True \<rparr>"
    unfolding mounted_run_eq example_ready_eq
    by (simp add: runObserverEffect_def runObserverCleanup_def runEffect_def
        observerEffect_def observerCleanup_def prog_defs no_faults_def initial_app_def)
  finally show ?thesis .
qed

lemma failed_registration_run_eq:
  "failed_registration_run =
     \<lparr> state = example_ready\<lparr>
         trace := trace example_ready
                  @ [(CancelObserver 2, Threw ''cancel failed''),
                     (CancelObserver 2, Returned),
                     (RegisterObserver 0 (fst (buildQuery (js ''eggs'')))
                        (snd (buildQuery (js ''eggs''))), Threw ''registration failed'')],
         console_error := [(''Error registering observer:'', ''registration failed'')],
         error := Some ''registration failed''\<rparr>,
       mounted = False, observerCleanupPending = True \<rparr>"
proof -
  have "failed_registration_run
        = react example_env
            (ObserverDeps (fault_at (CancelObserver 2) ''cancel failed'')
               (fault_at (RegisterObserver 0 (fst (buildQuery (js ''eggs'')))
                            (snd (buildQuery (js ''eggs'')))) ''registration failed'')
               (js ''eggs'') True)
            (run example_env [Setup no_faults, ObserverDeps no_faults no_faults (js ''milk'') True]
               initial_component)"
    by (simp add: failed_registration_run_def run_def)
  also have "\<dots> = \<lparr> state = example_ready\<lparr>
         trace := trace example_ready
                  @ [(CancelObserver 2, Threw ''cancel failed''),
                     (CancelObserver 2, Returned),
                     (RegisterObserver 0 (fst (buildQuery (js ''eggs'')))
                        (snd (buildQuery (js ''eggs''))), Threw ''registration failed'')],
         console_error := [(''Error registering observer:'', ''registration failed'')],
         error := Some ''registration failed''\<rparr>,
       mounted = False, observerCleanupPending = True \<rparr>"
    unfolding mounted_run_eq example_ready_eq
    by (simp add: runObserverEffect_def runObserverCleanup_def runEffect_def
        observerEffect_def observerCleanup_def prog_defs fault_at_def initial_app_def)
  finally show ?thesis .
qed

subsection \<open>The claims about the observer\<close>

text \<open>
  Claim C1, as the code has it. The visible task list is written by the observer callback
  and by nothing else: every other event leaves it as it was. The callback makes no check
  of the handle: invoked for any observer, the one held in \<^verbatim>\<open>tasksObserver.current\<close> or
  not, it replaces the list by the items delivered.
\<close>

theorem tasks_written_by_callbacks_only:
  "tasks (state (react env ev c))
     = (case ev of Callback h r \<Rightarrow> map item_value (items r) | _ \<Rightarrow> tasks (state c))"
  by (cases ev)
    (simp_all add: runHandler_def setup_keeps toggleSync_keeps execute_keeps observerCallback_def
      createTask_def editTask_def toggleTask_def deleteTask_def runObserverEffect_keeps
      runObserverCleanup_keeps runEffect_keeps instanceCleanup_keeps)

text \<open>
  The theorem after two query changes: a third query change leaves the list alone, and a
  callback of the current observer, number 3, replaces it.
\<close>

theorem tasks_written_by_callbacks_only_witness:
  "tasks (state (react example_env (ObserverDeps no_faults no_faults (js ''bread'') True) stale_run))
     = tasks (state stale_run)
   \<and> tasks (state (react example_env (Callback 3 \<lparr>items = [\<lparr>item_value = milk\<rparr>]\<rparr>) stale_run))
     = [milk]"
  using tasks_written_by_callbacks_only
      [of example_env "ObserverDeps no_faults no_faults (js ''bread'') True" stale_run]
    tasks_written_by_callbacks_only
      [of example_env "Callback 3 \<lparr>items = [\<lparr>item_value = milk\<rparr>]\<rparr>" stale_run]
  by simp

text \<open>
  Claim C1 as stated fails. After two query changes the observer of the first query,
  number 2, has been cancelled and the current one is number 3. A callback that still
  arrives for number 2 replaces the visible task list.
\<close>

theorem stale_callback_replaces_tasks:
  "tasksObserver (state stale_run) = Some 3
   \<and> (CancelObserver 2, Returned) \<in> set (trace (state stale_run))
   \<and> live_observers (trace (state stale_run)) = [3]
   \<and> tasks (state stale_run) = []
   \<and> tasks (state (react example_env (Callback 2 \<lparr>items = [\<lparr>item_value = milk\<rparr>]\<rparr>) stale_run))
       = [milk]"
  unfolding stale_run_eq example_ready_eq
  by (simp add: initial_app_def observerCallback_def live_observers_def observer_step_def)

text \<open>
  Claim C3. Whatever the sequence of events (query changes, changes of readiness, setup,
  teardown, callbacks, mutations) and whatever the SDK does, at every point of the history
  of calls at most one observer is live, and every registration of an observer is called at
  a point where none is live: a held observer is cancelled first, by the cleanup or by the
  body, in the same commit.
\<close>

theorem at_most_one_live_observer:
  "length (live_observers (take n (trace (state (run env evs initial_component))))) \<le> 1
   \<and> (n < length (trace (state (run env evs initial_component)))
        \<and> is_register (trace (state (run env evs initial_component)) ! n)
      \<longrightarrow> live_observers (take n (trace (state (run env evs initial_component)))) = [])"
  using app_inv_run [of env evs]
    one_at_a_time_prefix [of "trace (state (run env evs initial_component))" n]
  by (simp add: app_inv_def)

text \<open>
  The theorem at the second registration of the run with two query changes, the call with
  index 7: the observer of the first query has been cancelled by then.
\<close>

theorem at_most_one_live_observer_witness:
  "7 < length (trace (state stale_run))
   \<and> is_register (trace (state stale_run) ! 7)
   \<and> live_observers (take 7 (trace (state stale_run))) = []
   \<and> length (live_observers (take 8 (trace (state stale_run)))) \<le> 1"
proof -
  have l: "7 < length (trace (state stale_run))"
    unfolding stale_run_eq example_ready_eq by (simp add: initial_app_def)
  have r: "is_register (trace (state stale_run) ! 7)"
    unfolding stale_run_eq example_ready_eq by (simp add: initial_app_def is_register_def)
  show ?thesis
    using l r
      at_most_one_live_observer
        [of 7 example_env "[Setup no_faults, ObserverDeps no_faults no_faults (js ''milk'') True,
                            ObserverDeps no_faults no_faults (js ''eggs'') True]",
         folded stale_run_def]
      at_most_one_live_observer
        [of 8 example_env "[Setup no_faults, ObserverDeps no_faults no_faults (js ''milk'') True,
                            ObserverDeps no_faults no_faults (js ''eggs'') True]",
         folded stale_run_def]
    by simp
qed

text \<open>
  When the body of the observer effect starts with no observer held and the registration
  throws, the error is stored and the reference stays empty.
\<close>

lemma registration_failure_from_absent:
  assumes "ready" and "ditto s = Some d" and "tasksObserver s = None"
    and "f (RegisterObserver d (fst (buildQuery q)) (snd (buildQuery q))) = Some e"
  shows "fst (observerEffect f q ready s) = Inr True
       \<and> error (snd (observerEffect f q ready s)) = Some e
       \<and> tasksObserver (snd (observerEffect f q ready s)) = None"
  using assms by (simp add: observerEffect_def prog_defs)

text \<open>
  Claim C7 fails on the code. The body cancels a held observer (lines 119 to 122) without
  clearing the reference, as both cleanups do after their \<^verbatim>\<open>cancel\<close>. In the run below the
  cleanup's \<^verbatim>\<open>cancel\<close> of observer 2 throws, so the reference is still set when the body
  starts; the body cancels observer 2 and the registration throws. The error is stored, and
  \<^verbatim>\<open>tasksObserver.current\<close> still holds the cancelled observer 2.
\<close>

theorem failed_registration_keeps_handle:
  "error (state failed_registration_run) = Some ''registration failed''
   \<and> tasksObserver (state failed_registration_run) = Some 2
   \<and> live_observers (trace (state failed_registration_run)) = []
   \<and> drop 6 (trace (state failed_registration_run))
       = [(CancelObserver 2, Threw ''cancel failed''),
          (CancelObserver 2, Returned),
          (RegisterObserver 0 (fst (buildQuery (js ''eggs''))) (snd (buildQuery (js ''eggs''))),
           Threw ''registration failed'')]"
  unfolding failed_registration_run_eq example_ready_eq
  by (simp add: initial_app_def live_observers_def observer_step_def)

end
